theory Spec2Isabelle
  imports Complex_Main
begin

section \<open>JavaScript objects used as dictionaries\<close>

text \<open>
  The backend manager keeps its state in three plain objects keyed by backend name.
  An object is modelled as an association list in insertion order, which is the order
  in which \<^verbatim>\<open>Object.keys\<close> and \<^verbatim>\<open>Object.entries\<close> enumerate string keys
  that are not array indices. Assigning to an existing key keeps its position, assigning
  to a new key appends it, \<^verbatim>\<open>delete\<close> removes the key. Only own properties are
  modelled: names inherited from \<^verbatim>\<open>Object.prototype\<close> are outside the model.
\<close>

type_synonym 'v obj = "(string \<times> 'v) list"

definition obj_get :: "'v obj \<Rightarrow> string \<Rightarrow> 'v option" where
  "obj_get m k = map_of m k"

fun obj_set :: "'v obj \<Rightarrow> string \<Rightarrow> 'v \<Rightarrow> 'v obj" where
  "obj_set [] k v = [(k, v)]"
| "obj_set ((k', v') # m) k v =
     (if k' = k then (k, v) # m else (k', v') # obj_set m k v)"

definition obj_delete :: "'v obj \<Rightarrow> string \<Rightarrow> 'v obj" where
  "obj_delete m k = filter (\<lambda>kv. fst kv \<noteq> k) m"

definition obj_keys :: "'v obj \<Rightarrow> string list" where
  "obj_keys m = map fst m"

section \<open>Backend registry and alias table (backend-manager.js, lines 19-41)\<close>

datatype backend_class = StandardBackend | LanceDBBackend | QdrantBackend | MilvusBackend

definition BACKENDS :: "backend_class obj" where
  "BACKENDS =
     [(''standard'', StandardBackend),
      (''lancedb'', LanceDBBackend),
      (''qdrant'', QdrantBackend),
      (''milvus'', MilvusBackend)]"

definition BACKEND_ALIASES :: "string obj" where
  "BACKEND_ALIASES = [(''vectra'', ''standard'')]"

text \<open>
  A backend name argument is a string, or one of the two absent values of JavaScript.
  \<open>truthy\<close> is the test \<^verbatim>\<open>if (backendName)\<close>: the absent values and the empty
  string are falsy.
\<close>

datatype js_name = Undefined | Null | Str string

fun truthy :: "js_name \<Rightarrow> bool" where
  "truthy Undefined = False"
| "truthy Null = False"
| "truthy (Str s) = (s \<noteq> [])"

fun normalizeBackendName :: "js_name \<Rightarrow> string" where
  "normalizeBackendName Undefined = ''standard''"
| "normalizeBackendName Null = ''standard''"
| "normalizeBackendName (Str backendName) =
     (if backendName = [] then ''standard''
      else (case obj_get BACKEND_ALIASES backendName of
              Some alias \<Rightarrow> if alias \<noteq> [] then alias else backendName
            | None \<Rightarrow> backendName))"

section \<open>The instance cache (backend-manager.js, lines 43-71)\<close>

text \<open>
  A backend instance is the object made by \<^verbatim>\<open>new BackendClass()\<close>: its class and
  its identity. Timestamps are the integers returned by \<^verbatim>\<open>Date.now()\<close>.
\<close>

datatype backend_instance = Instance backend_class nat

record cache =
  backendInstances :: "backend_instance obj"
  backendHealthStatus :: "bool obj"
  backendAccessTimestamps :: "int obj"

definition empty_cache :: cache where
  "empty_cache =
     \<lparr>backendInstances = [], backendHealthStatus = [], backendAccessTimestamps = []\<rparr>"

definition MAX_CACHED_BACKENDS :: nat where
  "MAX_CACHED_BACKENDS = 5"

text \<open>
  The loop of \<^verbatim>\<open>evictLRUBackendIfNeeded\<close> over the entries of the timestamp table.
  The accumulator is the pair \<^verbatim>\<open>(oldestBackend, oldestTime)\<close>; \<open>None\<close> stands for
  the initial values \<^verbatim>\<open>null\<close> and \<^verbatim>\<open>Infinity\<close>, below which every timestamp lies.
\<close>

fun oldest_scan ::
  "(string \<times> int) list \<Rightarrow> string option \<times> int option \<Rightarrow> string option \<times> int option" where
  "oldest_scan [] acc = acc"
| "oldest_scan ((name, timestamp) # rest) (oldestBackend, oldestTime) =
     (if (case oldestTime of None \<Rightarrow> True | Some t \<Rightarrow> timestamp < t)
      then oldest_scan rest (Some name, Some timestamp)
      else oldest_scan rest (oldestBackend, oldestTime))"

definition evict :: "string \<Rightarrow> cache \<Rightarrow> cache" where
  "evict oldestBackend s =
     s\<lparr>backendInstances := obj_delete (backendInstances s) oldestBackend,
       backendHealthStatus := obj_delete (backendHealthStatus s) oldestBackend,
       backendAccessTimestamps := obj_delete (backendAccessTimestamps s) oldestBackend\<rparr>"

definition evictLRUBackendIfNeeded :: "cache \<Rightarrow> cache" where
  "evictLRUBackendIfNeeded s =
     (let cachedCount = length (obj_keys (backendInstances s)) in
      if cachedCount \<ge> MAX_CACHED_BACKENDS then
        (case fst (oldest_scan (backendAccessTimestamps s) (None, None)) of
           None \<Rightarrow> s
         | Some oldestBackend \<Rightarrow> if oldestBackend = [] then s else evict oldestBackend s)
      else s)"

section \<open>Initialising a backend (backend-manager.js, lines 80-136)\<close>

text \<open>
  What the outside world does during one call is a parameter of the model: the reading
  of the clock, the identity of the object a construction would make, and how far the
  attempt gets: the constructor throws, \<^verbatim>\<open>initialize\<close> throws, \<^verbatim>\<open>healthCheck\<close>
  throws, or \<^verbatim>\<open>healthCheck\<close> returns a truth value. A thrown value is an error
  object, as at every \<^verbatim>\<open>throw\<close> of the repository's backends. The calls made on the
  backend are returned as a trace, so that a construction is observable. Console output
  is not modelled. A call runs to its end before the next one starts: interleavings of
  two calls at an \<^verbatim>\<open>await\<close> are not modelled.
\<close>

datatype attempt =
  ConstructorThrows | InitializeThrows | HealthCheckThrows | HealthCheckReturns bool

record env =
  now :: int
  fresh :: nat
  outcome :: attempt

datatype backend_call = New string | Initialize string | HealthCheck string

datatype error =
  UnknownBackend js_name string
| FailedHealthCheck string
| BackendException string
| CollectionBackendNotSpecified

type_synonym 'a result = "cache \<times> (error + 'a) \<times> backend_call list"

text \<open>The test \<^verbatim>\<open>backendInstances[n] && backendHealthStatus[n]\<close>.\<close>

definition cached_healthy :: "cache \<Rightarrow> string \<Rightarrow> bool" where
  "cached_healthy s n =
     (obj_get (backendInstances s) n \<noteq> None \<and> obj_get (backendHealthStatus s) n = Some True)"

definition mark_unhealthy :: "string \<Rightarrow> cache \<Rightarrow> cache" where
  "mark_unhealthy n s = s\<lparr>backendHealthStatus := obj_set (backendHealthStatus s) n False\<rparr>"

text \<open>The exit of a failed call: the error is thrown, or \<^verbatim>\<open>null\<close> is returned.\<close>

definition failure :: "bool \<Rightarrow> error \<Rightarrow> error + backend_instance option" where
  "failure throwOnFail e = (if throwOnFail then Inl e else Inr None)"

definition initializeBackend :: "js_name \<Rightarrow> env \<Rightarrow> bool \<Rightarrow> cache \<Rightarrow> backend_instance option result" where
  "initializeBackend backendName e throwOnFail s =
     (let normalizedName = normalizeBackendName backendName in
      if cached_healthy s normalizedName then
        (s\<lparr>backendAccessTimestamps :=
              obj_set (backendAccessTimestamps s) normalizedName (now e)\<rparr>,
         Inr (obj_get (backendInstances s) normalizedName), [])
      else
        let s1 = evictLRUBackendIfNeeded s in
        (case obj_get BACKENDS normalizedName of
           None \<Rightarrow> (s1, failure throwOnFail (UnknownBackend backendName normalizedName), [])
         | Some BackendClass \<Rightarrow>
             (case outcome e of
                ConstructorThrows \<Rightarrow>
                  (mark_unhealthy normalizedName s1,
                   failure throwOnFail (BackendException normalizedName),
                   [New normalizedName])
              | InitializeThrows \<Rightarrow>
                  (mark_unhealthy normalizedName s1,
                   failure throwOnFail (BackendException normalizedName),
                   [New normalizedName, Initialize normalizedName])
              | HealthCheckThrows \<Rightarrow>
                  (mark_unhealthy normalizedName s1,
                   failure throwOnFail (BackendException normalizedName),
                   [New normalizedName, Initialize normalizedName, HealthCheck normalizedName])
              | HealthCheckReturns healthy \<Rightarrow>
                  if \<not> healthy then
                    (mark_unhealthy normalizedName s1,
                     failure throwOnFail (FailedHealthCheck normalizedName),
                     [New normalizedName, Initialize normalizedName, HealthCheck normalizedName])
                  else
                    (let backend = Instance BackendClass (fresh e) in
                     (s1\<lparr>backendInstances :=
                           obj_set (backendInstances s1) normalizedName backend,
                         backendHealthStatus :=
                           obj_set (backendHealthStatus s1) normalizedName True,
                         backendAccessTimestamps :=
                           obj_set (backendAccessTimestamps s1) normalizedName (now e)\<rparr>,
                      Inr (Some backend),
                      [New normalizedName, Initialize normalizedName,
                       HealthCheck normalizedName])))))"

section \<open>The other public operations (backend-manager.js, lines 145-213)\<close>

text \<open>
  \<^verbatim>\<open>getBackend\<close> picks the first truthy name among the explicit parameter, the
  \<^verbatim>\<open>vector_backend\<close> of the settings, the one of the global extension settings, and
  \<^verbatim>\<open>'standard'\<close>, then initialises it with \<^verbatim>\<open>throwOnFail = true\<close>.
\<close>

definition getBackend :: "js_name \<Rightarrow> js_name \<Rightarrow> js_name \<Rightarrow> env \<Rightarrow> cache \<Rightarrow> backend_instance option result" where
  "getBackend settings_vector_backend global_vector_backend preferredBackend e s =
     (let backendName =
            (if truthy preferredBackend then preferredBackend
             else if truthy settings_vector_backend then settings_vector_backend
             else if truthy global_vector_backend then global_vector_backend
             else Str ''standard'')
      in initializeBackend backendName e True s)"

definition getBackendForCollection ::
  "js_name \<Rightarrow> js_name \<Rightarrow> js_name \<Rightarrow> env \<Rightarrow> cache \<Rightarrow> backend_instance option result" where
  "getBackendForCollection collectionBackend settings_vector_backend global_vector_backend e s =
     (if \<not> truthy collectionBackend then (s, Inl CollectionBackendNotSpecified, [])
      else getBackend settings_vector_backend global_vector_backend collectionBackend e s)"

text \<open>
  \<^verbatim>\<open>isBackendAvailable\<close> awaits \<^verbatim>\<open>initializeBackend\<close> outside any
  \<^verbatim>\<open>try\<close>: an error thrown there would leave it too, so its result is a sum as well.
\<close>

definition isBackendAvailable :: "js_name \<Rightarrow> env \<Rightarrow> cache \<Rightarrow> bool result" where
  "isBackendAvailable backendName e s =
     (let normalizedName = normalizeBackendName backendName in
      if obj_get (backendHealthStatus s) normalizedName = Some False then (s, Inr False, [])
      else if cached_healthy s normalizedName then (s, Inr True, [])
      else
        (case initializeBackend backendName e False s of
           (s', Inl err, calls) \<Rightarrow> (s', Inl err, calls)
         | (s', Inr backend, calls) \<Rightarrow> (s', Inr (backend \<noteq> None), calls)))"

definition reset_one :: "string \<Rightarrow> cache \<Rightarrow> cache" where
  "reset_one name s =
     s\<lparr>backendHealthStatus := obj_delete (backendHealthStatus s) name,
       backendInstances := obj_delete (backendInstances s) name\<rparr>"

definition resetBackendHealth :: "js_name \<Rightarrow> cache \<Rightarrow> cache" where
  "resetBackendHealth backendName s =
     (if truthy backendName then reset_one (normalizeBackendName backendName) s
      else fold reset_one (obj_keys (backendHealthStatus s)) s)"

definition getAvailableBackends :: "string list" where
  "getAvailableBackends = obj_keys BACKENDS"

text \<open>Sequences of public operations, run from the empty cache of a freshly loaded module.\<close>

datatype operation =
  InitializeBackend js_name env bool
| GetBackend js_name js_name js_name env
| GetBackendForCollection js_name js_name js_name env
| IsBackendAvailable js_name env
| ResetBackendHealth js_name

fun step :: "operation \<Rightarrow> cache \<Rightarrow> cache" where
  "step (InitializeBackend n e t) s = fst (initializeBackend n e t s)"
| "step (GetBackend sv gv p e) s = fst (getBackend sv gv p e s)"
| "step (GetBackendForCollection c sv gv e) s = fst (getBackendForCollection c sv gv e s)"
| "step (IsBackendAvailable n e) s = fst (isBackendAvailable n e s)"
| "step (ResetBackendHealth n) s = resetBackendHealth n s"

definition run :: "operation list \<Rightarrow> cache \<Rightarrow> cache" where
  "run ops s = fold step ops s"

text \<open>
  The invariant of the instance table that the public operations keep: no key occurs
  twice, and every key is a name of the registry.
\<close>

definition cache_inv :: "cache \<Rightarrow> bool" where
  "cache_inv s =
     (distinct (obj_keys (backendInstances s))
      \<and> list_all (\<lambda>k. k \<in> set (obj_keys BACKENDS)) (obj_keys (backendInstances s)))"

section \<open>The BM25 fixture (bm25-test.js, lines 9-23)\<close>

record document =
  doc_text :: string
  doc_id :: nat

definition testDocuments :: "document list" where
  "testDocuments =
     [\<lparr>doc_text = ''The wizard cast a powerful fire spell at the dragon'', doc_id = 1\<rparr>,
      \<lparr>doc_text = ''Magic spells require concentration and mana'', doc_id = 2\<rparr>,
      \<lparr>doc_text = ''The dragon breathed fire across the battlefield'', doc_id = 3\<rparr>,
      \<lparr>doc_text = ''Ancient wizards studied magic in the tower'', doc_id = 4\<rparr>,
      \<lparr>doc_text = ''She learned a new healing spell today'', doc_id = 5\<rparr>]"

definition query1 :: string where
  "query1 = ''wizard magic spell''"

section \<open>The BM25 scorer (core/bm25-scorer.js)\<close>

text \<open>
  Modelled from the spec: the tokenizer of \<^verbatim>\<open>core/bm25-scorer.js\<close>, a file that is
  not among the sources. The specification (4.1) has it lower-case the text, split it at
  the characters that are not alphanumeric, and discard empty tokens, without stemming.
  Characters are the ASCII ones of the fixture.
\<close>

definition is_alnum :: "char \<Rightarrow> bool" where
  "is_alnum c =
     (let n = (of_char c :: nat) in
      (48 \<le> n \<and> n \<le> 57) \<or> (65 \<le> n \<and> n \<le> 90) \<or> (97 \<le> n \<and> n \<le> 122))"

definition to_lower :: "char \<Rightarrow> char" where
  "to_lower c =
     (let n = (of_char c :: nat) in if 65 \<le> n \<and> n \<le> 90 then char_of (n + 32) else c)"

fun tokens_from :: "string \<Rightarrow> string \<Rightarrow> string list" where
  "tokens_from cur [] = (if cur = [] then [] else [cur])"
| "tokens_from cur (c # cs) =
     (if is_alnum c then tokens_from (cur @ [to_lower c]) cs
      else (if cur = [] then [] else [cur]) @ tokens_from [] cs)"

definition tokenize :: "string \<Rightarrow> string list" where
  "tokenize txt = tokens_from [] txt"

text \<open>
  Modelled from the spec: the statistics that \<^verbatim>\<open>indexDocuments\<close> of the missing
  \<^verbatim>\<open>core/bm25-scorer.js\<close> builds (specification 3 and 4.1): the raw count of a term
  in a document, the token count of a document, the number of documents in which a term
  occurs, and the arithmetic mean of the token counts.
\<close>

definition termFrequency :: "string \<Rightarrow> document \<Rightarrow> nat" where
  "termFrequency t D = count_list (tokenize (doc_text D)) t"

definition docLength :: "document \<Rightarrow> nat" where
  "docLength D = length (tokenize (doc_text D))"

definition documentFrequency :: "document list \<Rightarrow> string \<Rightarrow> nat" where
  "documentFrequency docs t = length (filter (\<lambda>D. 0 < termFrequency t D) docs)"

definition avgdl :: "document list \<Rightarrow> real" where
  "avgdl docs = real (sum_list (map docLength docs)) / real (length docs)"

text \<open>
  Modelled from the spec: the score of \<^verbatim>\<open>search\<close> in the missing
  \<^verbatim>\<open>core/bm25-scorer.js\<close>, by the formula of specification 4.2 over the real numbers:
  \<open>IDF(q) = ln ((N - df(q) + 0.5) / (df(q) + 0.5) + 1)\<close> and
  \<open>score(D, Q) = \<Sum>q. IDF(q) * f(q, D) * (k1 + 1) / (f(q, D) + k1 * (1 - b + b * |D| / avgdl))\<close>.
\<close>

definition idf :: "document list \<Rightarrow> string \<Rightarrow> real" where
  "idf docs t =
     ln ((real (length docs) - real (documentFrequency docs t) + 0.5)
           / (real (documentFrequency docs t) + 0.5) + 1)"

definition term_score :: "real \<Rightarrow> real \<Rightarrow> document list \<Rightarrow> document \<Rightarrow> string \<Rightarrow> real" where
  "term_score k1 b docs D t =
     idf docs t * (real (termFrequency t D) * (k1 + 1))
       / (real (termFrequency t D) + k1 * (1 - b + b * real (docLength D) / avgdl docs))"

definition bm25_score :: "real \<Rightarrow> real \<Rightarrow> document list \<Rightarrow> document \<Rightarrow> string \<Rightarrow> real" where
  "bm25_score k1 b docs D query = sum_list (map (term_score k1 b docs D) (tokenize query))"

text \<open>
  Modelled from the spec: the ranking of \<^verbatim>\<open>search\<close> in the missing
  \<^verbatim>\<open>core/bm25-scorer.js\<close> (specification 3 and 4.2): the documents in descending
  order of score, ties in their original order.
\<close>

definition rank_documents :: "real \<Rightarrow> real \<Rightarrow> document list \<Rightarrow> string \<Rightarrow> document list" where
  "rank_documents k1 b docs query = sort_key (\<lambda>D. - bm25_score k1 b docs D query) docs"

section \<open>Facts about the dictionary operations\<close>

lemma obj_get_set: "obj_get (obj_set m k v) k' = (if k' = k then Some v else obj_get m k')"
  by (induction m) (auto simp: obj_get_def)

lemma obj_get_delete: "obj_get (obj_delete m k) k' = (if k' = k then None else obj_get m k')"
  by (induction m) (auto simp: obj_get_def obj_delete_def)

lemma fst_set_obj_set: "fst ` set (obj_set m k v) = insert k (fst ` set m)"
proof (induction m)
  case Nil
  show ?case by simp
next
  case (Cons a m)
  obtain k' v' where a: "a = (k', v')" by (cases a)
  show ?case
  proof (cases "k' = k")
    case True
    then show ?thesis by (simp add: a)
  next
    case False
    then show ?thesis using Cons.IH by (simp add: a insert_commute)
  qed
qed

lemma keys_obj_set: "set (obj_keys (obj_set m k v)) = insert k (set (obj_keys m))"
  by (simp add: obj_keys_def fst_set_obj_set)

lemma keys_obj_delete: "set (obj_keys (obj_delete m k)) = set (obj_keys m) - {k}"
  by (induction m) (auto simp: obj_keys_def obj_delete_def)

lemma distinct_obj_set: "distinct (obj_keys m) \<Longrightarrow> distinct (obj_keys (obj_set m k v))"
proof (induction m)
  case Nil
  show ?case by (simp add: obj_keys_def)
next
  case (Cons a m)
  obtain k' v' where a: "a = (k', v')" by (cases a)
  from Cons.prems have d: "k' \<notin> fst ` set m" "distinct (obj_keys m)"
    by (simp_all add: a obj_keys_def)
  show ?case
  proof (cases "k' = k")
    case True
    then show ?thesis using Cons.prems by (simp add: a obj_keys_def)
  next
    case False
    then show ?thesis using Cons.IH [OF d(2)] d(1)
      by (simp add: a obj_keys_def fst_set_obj_set)
  qed
qed

lemma distinct_obj_delete: "distinct (obj_keys m) \<Longrightarrow> distinct (obj_keys (obj_delete m k))"
  by (simp add: obj_keys_def obj_delete_def distinct_map_filter)

section \<open>Facts about initialisation\<close>

lemma obj_get_keys: "obj_get m k = Some v \<Longrightarrow> k \<in> set (obj_keys m)"
  by (auto simp: obj_get_def obj_keys_def dest: map_of_SomeD intro: rev_image_eqI)

lemma initializeBackend_hit:
  "cached_healthy s (normalizeBackendName nm) \<Longrightarrow>
   initializeBackend nm e t s =
     (s\<lparr>backendAccessTimestamps :=
          obj_set (backendAccessTimestamps s) (normalizeBackendName nm) (now e)\<rparr>,
      Inr (obj_get (backendInstances s) (normalizeBackendName nm)), [])"
  by (simp add: initializeBackend_def Let_def)

lemma initializeBackend_returns_cached:
  assumes "initializeBackend nm e t s = (s', Inr (Some i), calls)"
  shows "obj_get (backendInstances s') (normalizeBackendName nm) = Some i
         \<and> cached_healthy s' (normalizeBackendName nm)"
  using assms
  by (auto simp: initializeBackend_def Let_def failure_def cached_healthy_def obj_get_set
           split: if_splits option.splits attempt.splits)

section \<open>The invariant of the instance table\<close>

lemma cache_inv_iff:
  "cache_inv s \<longleftrightarrow>
     distinct (obj_keys (backendInstances s))
     \<and> set (obj_keys (backendInstances s)) \<subseteq> set (obj_keys BACKENDS)"
  by (auto simp: cache_inv_def list_all_iff)

lemma inv_evict: "cache_inv s \<Longrightarrow> cache_inv (evictLRUBackendIfNeeded s)"
  by (auto simp: cache_inv_iff evictLRUBackendIfNeeded_def evict_def Let_def
                 distinct_obj_delete keys_obj_delete
           split: option.splits)

lemma inv_mark: "cache_inv s \<Longrightarrow> cache_inv (mark_unhealthy n s)"
  by (simp add: cache_inv_iff mark_unhealthy_def)

lemma inv_init: "cache_inv s \<Longrightarrow> cache_inv (fst (initializeBackend nm e t s))"
proof -
  assume i: "cache_inv s"
  let ?n = "normalizeBackendName nm"
  let ?s1 = "evictLRUBackendIfNeeded s"
  have i1: "cache_inv ?s1" using i by (rule inv_evict)
  show ?thesis
  proof (cases "cached_healthy s ?n")
    case True
    then show ?thesis using i by (simp add: initializeBackend_hit cache_inv_iff)
  next
    case False
    show ?thesis
    proof (cases "obj_get BACKENDS ?n")
      case None
      then show ?thesis using False i1 by (simp add: initializeBackend_def Let_def)
    next
      case (Some cls)
      have k: "?n \<in> set (obj_keys BACKENDS)" using Some by (rule obj_get_keys)
      have ok: "cache_inv (?s1\<lparr>backendInstances := obj_set (backendInstances ?s1) ?n b,
                               backendHealthStatus := h, backendAccessTimestamps := ts\<rparr>)"
        for b h ts
        using i1 k by (simp add: cache_inv_iff distinct_obj_set keys_obj_set)
      show ?thesis using False Some i1 ok
        by (simp add: initializeBackend_def Let_def inv_mark split: attempt.splits)
    qed
  qed
qed

lemma inv_reset_one: "cache_inv s \<Longrightarrow> cache_inv (reset_one n s)"
  by (auto simp: cache_inv_iff reset_one_def distinct_obj_delete keys_obj_delete)

lemma inv_fold_reset: "cache_inv s \<Longrightarrow> cache_inv (fold reset_one ns s)"
  by (induction ns arbitrary: s) (simp_all add: inv_reset_one)

lemma fst_isBackendAvailable_miss:
  "fst (case initializeBackend n e False s of
          (s', Inl err, calls) \<Rightarrow> (s', Inl err :: error + bool, calls)
        | (s', Inr backend, calls) \<Rightarrow> (s', Inr (backend \<noteq> None), calls))
   = fst (initializeBackend n e False s)"
  by (simp split: prod.splits sum.splits)

lemma inv_step: "cache_inv s \<Longrightarrow> cache_inv (step op s)"
proof (cases op)
  case (InitializeBackend n e t)
  assume "cache_inv s" then show ?thesis by (simp add: InitializeBackend inv_init)
next
  case (GetBackend sv gv p e)
  assume "cache_inv s" then show ?thesis by (simp add: GetBackend getBackend_def inv_init)
next
  case (GetBackendForCollection c sv gv e)
  assume "cache_inv s" then show ?thesis
    by (simp add: GetBackendForCollection getBackendForCollection_def getBackend_def inv_init)
next
  case (IsBackendAvailable n e)
  assume i: "cache_inv s"
  then show ?thesis using inv_init [OF i, of n e False]
    by (simp add: IsBackendAvailable isBackendAvailable_def Let_def
                  fst_isBackendAvailable_miss)
next
  case (ResetBackendHealth n)
  assume "cache_inv s" then show ?thesis
    by (simp add: ResetBackendHealth resetBackendHealth_def inv_reset_one inv_fold_reset)
qed

lemma inv_run: "cache_inv s \<Longrightarrow> cache_inv (run ops s)"
  unfolding run_def by (induction ops arbitrary: s) (simp_all add: inv_step)

lemma inv_empty: "cache_inv empty_cache"
  by (simp add: cache_inv_def empty_cache_def obj_keys_def)

lemma inv_length: "cache_inv s \<Longrightarrow> length (obj_keys (backendInstances s)) \<le> 4"
proof -
  assume "cache_inv s"
  then have d: "distinct (obj_keys (backendInstances s))"
    and sub: "set (obj_keys (backendInstances s)) \<subseteq> set (obj_keys BACKENDS)"
    by (simp_all add: cache_inv_iff)
  have "length (obj_keys (backendInstances s)) = card (set (obj_keys (backendInstances s)))"
    using d by (simp add: distinct_card)
  also have "\<dots> \<le> card (set (obj_keys BACKENDS))"
    using sub by (simp add: card_mono)
  also have "\<dots> \<le> length (obj_keys BACKENDS)" by (rule card_length)
  also have "\<dots> = 4" by (simp add: BACKENDS_def obj_keys_def)
  finally show ?thesis .
qed

lemmas cache_eval =
  initializeBackend_def isBackendAvailable_def resetBackendHealth_def reset_one_def
  getBackend_def Let_def cached_healthy_def empty_cache_def obj_get_def obj_delete_def
  obj_keys_def BACKEND_ALIASES_def BACKENDS_def evictLRUBackendIfNeeded_def evict_def
  MAX_CACHED_BACKENDS_def mark_unhealthy_def failure_def

section \<open>The claims about the backend cache\<close>

text \<open>
  Claim C3. After every sequence of the public operations, started from the empty cache,
  the instance table holds each backend name at most once and never more than
  \<open>MAX_CACHED_BACKENDS = 5\<close> instances. (Only the four names of the registry ever
  get an instance, so the table never holds more than four.)
\<close>

theorem cache_size_bounded:
  "distinct (obj_keys (backendInstances (run ops empty_cache)))
   \<and> length (obj_keys (backendInstances (run ops empty_cache))) \<le> MAX_CACHED_BACKENDS"
  using inv_run [OF inv_empty, of ops] inv_length [of "run ops empty_cache"]
  by (simp add: cache_inv_iff MAX_CACHED_BACKENDS_def)

text \<open>
  Claim C4. When a name has a cached instance whose health flag is true, a further
  \<^verbatim>\<open>initializeBackend\<close> for that name returns that very instance, makes no call
  on any backend (no construction, no health check), leaves the cache as it is except
  for the timestamp of the name, and sets that timestamp to the current time.
\<close>

theorem initializeBackend_cached_hit:
  assumes "obj_get (backendInstances s) (normalizeBackendName nm) = Some i"
      and "obj_get (backendHealthStatus s) (normalizeBackendName nm) = Some True"
  shows "initializeBackend nm e t s =
           (s\<lparr>backendAccessTimestamps :=
                obj_set (backendAccessTimestamps s) (normalizeBackendName nm) (now e)\<rparr>,
            Inr (Some i), [])
         \<and> obj_get (backendAccessTimestamps (fst (initializeBackend nm e t s)))
               (normalizeBackendName nm) = Some (now e)"
proof -
  have c: "cached_healthy s (normalizeBackendName nm)"
    using assms by (simp add: cached_healthy_def)
  show ?thesis
    using assms(1) by (simp add: initializeBackend_hit [OF c] obj_get_set)
qed

text \<open>
  The situation arises: a first call caches \<^verbatim>\<open>lancedb\<close>, the second returns the
  same instance although the constructor would now throw.
\<close>

theorem initializeBackend_cached_hit_witness:
  "initializeBackend (Str ''lancedb'') \<lparr>now = 200, fresh = 2, outcome = ConstructorThrows\<rparr> True
     (fst (initializeBackend (Str ''lancedb'')
             \<lparr>now = 100, fresh = 11, outcome = HealthCheckReturns True\<rparr> True empty_cache))
   = (\<lparr>backendInstances = [(''lancedb'', Instance LanceDBBackend 11)],
       backendHealthStatus = [(''lancedb'', True)],
       backendAccessTimestamps = [(''lancedb'', 200)]\<rparr>,
      Inr (Some (Instance LanceDBBackend 11)), [])"
proof -
  let ?s1 = "fst (initializeBackend (Str ''lancedb'')
             \<lparr>now = 100, fresh = 11, outcome = HealthCheckReturns True\<rparr> True empty_cache)"
  have s1: "?s1 = \<lparr>backendInstances = [(''lancedb'', Instance LanceDBBackend 11)],
       backendHealthStatus = [(''lancedb'', True)],
       backendAccessTimestamps = [(''lancedb'', 100)]\<rparr>"
    by (simp add: cache_eval)
  have h1: "obj_get (backendInstances ?s1) (normalizeBackendName (Str ''lancedb''))
              = Some (Instance LanceDBBackend 11)"
    by (simp add: s1 obj_get_def BACKEND_ALIASES_def)
  have h2: "obj_get (backendHealthStatus ?s1) (normalizeBackendName (Str ''lancedb'')) = Some True"
    by (simp add: s1 obj_get_def BACKEND_ALIASES_def)
  show ?thesis
    using initializeBackend_cached_hit [OF h1 h2,
        of "\<lparr>now = 200, fresh = 2, outcome = ConstructorThrows\<rparr>" True]
    by (simp add: s1 obj_get_def BACKEND_ALIASES_def)
qed


text \<open>The alias and the canonical name have one key.\<close>

lemma normalize_vectra: "normalizeBackendName (Str ''vectra'') = ''standard''"
  by (simp add: BACKEND_ALIASES_def obj_get_def)

lemma normalize_standard: "normalizeBackendName (Str ''standard'') = ''standard''"
  by (simp add: BACKEND_ALIASES_def obj_get_def)

text \<open>
  Claim C5. \<^verbatim>\<open>vectra\<close> and \<^verbatim>\<open>standard\<close> normalize to the same key: when a
  backend has been initialised under one of the two names, a request under the other
  returns the same cached instance without any call on a backend, and no run of the
  public operations ever puts an instance under the key \<^verbatim>\<open>vectra\<close>.
\<close>

theorem vectra_standard_share_slot:
  assumes names: "(a = ''vectra'' \<and> b = ''standard'') \<or> (a = ''standard'' \<and> b = ''vectra'')"
      and first: "initializeBackend (Str a) e1 t1 s = (s1, Inr (Some i), calls)"
  shows "normalizeBackendName (Str a) = normalizeBackendName (Str b)
         \<and> initializeBackend (Str b) e2 t2 s1 =
             (s1\<lparr>backendAccessTimestamps :=
                   obj_set (backendAccessTimestamps s1) ''standard'' (now e2)\<rparr>,
              Inr (Some i), [])
         \<and> ''vectra'' \<notin> set (obj_keys (backendInstances (run ops empty_cache)))"
proof -
  have na: "normalizeBackendName (Str a) = ''standard''"
    and nb: "normalizeBackendName (Str b) = ''standard''"
    using names normalize_vectra normalize_standard by auto
  note r = initializeBackend_returns_cached [OF first, unfolded na]
  have got: "obj_get (backendInstances s1) ''standard'' = Some i"
    using r by (rule conjunct1)
  have c: "cached_healthy s1 (normalizeBackendName (Str b))"
    using r unfolding nb by (rule conjunct2)
  have second: "initializeBackend (Str b) e2 t2 s1 =
             (s1\<lparr>backendAccessTimestamps :=
                   obj_set (backendAccessTimestamps s1) ''standard'' (now e2)\<rparr>,
              Inr (Some i), [])"
    unfolding initializeBackend_hit [OF c] nb got ..
  have "cache_inv (run ops empty_cache)" by (rule inv_run [OF inv_empty])
  then have "set (obj_keys (backendInstances (run ops empty_cache))) \<subseteq> set (obj_keys BACKENDS)"
    by (simp add: cache_inv_iff)
  moreover have "''vectra'' \<notin> set (obj_keys BACKENDS)"
    by (simp add: BACKENDS_def obj_keys_def)
  ultimately have "''vectra'' \<notin> set (obj_keys (backendInstances (run ops empty_cache)))"
    by blast
  with second show ?thesis unfolding na nb by simp
qed

text \<open>Initialising \<^verbatim>\<open>vectra\<close>, then asking for \<^verbatim>\<open>standard\<close>.\<close>

theorem vectra_standard_share_slot_witness:
  "initializeBackend (Str ''standard'') \<lparr>now = 9, fresh = 8, outcome = InitializeThrows\<rparr> True
     \<lparr>backendInstances = [(''standard'', Instance StandardBackend 7)],
      backendHealthStatus = [(''standard'', True)],
      backendAccessTimestamps = [(''standard'', 5)]\<rparr>
   = (\<lparr>backendInstances = [(''standard'', Instance StandardBackend 7)],
       backendHealthStatus = [(''standard'', True)],
       backendAccessTimestamps = [(''standard'', 9)]\<rparr>,
      Inr (Some (Instance StandardBackend 7)), [])
   \<and> ''vectra'' \<notin> set (obj_keys (backendInstances
         (run [InitializeBackend (Str ''vectra'')
                 \<lparr>now = 5, fresh = 7, outcome = HealthCheckReturns True\<rparr> False] empty_cache)))"
proof -
  have first: "initializeBackend (Str ''vectra'')
       \<lparr>now = 5, fresh = 7, outcome = HealthCheckReturns True\<rparr> False empty_cache
     = (\<lparr>backendInstances = [(''standard'', Instance StandardBackend 7)],
         backendHealthStatus = [(''standard'', True)],
         backendAccessTimestamps = [(''standard'', 5)]\<rparr>,
        Inr (Some (Instance StandardBackend 7)),
        [New ''standard'', Initialize ''standard'', HealthCheck ''standard''])"
    by (simp add: cache_eval)
  have names: "(''vectra'' = ''vectra'' \<and> ''standard'' = ''standard'')
                 \<or> (''vectra'' = ''standard'' \<and> ''standard'' = ''vectra'')"
    by simp
  show ?thesis
    using vectra_standard_share_slot [OF names first,
        of "\<lparr>now = 9, fresh = 8, outcome = InitializeThrows\<rparr>" True
           "[InitializeBackend (Str ''vectra'')
                 \<lparr>now = 5, fresh = 7, outcome = HealthCheckReturns True\<rparr> False]"]
    by simp
qed

text \<open>
  Claim C9. For a falsy name (\<^verbatim>\<open>undefined\<close>, \<^verbatim>\<open>null\<close> or the empty string)
  \<^verbatim>\<open>initializeBackend\<close> and \<^verbatim>\<open>isBackendAvailable\<close> use the key
  \<^verbatim>\<open>standard\<close> and return what they return for the name \<^verbatim>\<open>standard\<close>: new
  cache, result and calls on the backend. In particular no unknown-backend error is
  reported.
\<close>

theorem falsy_name_is_standard:
  assumes "\<not> truthy nm"
  shows "normalizeBackendName nm = ''standard''
         \<and> initializeBackend nm e t s = initializeBackend (Str ''standard'') e t s
         \<and> isBackendAvailable nm e s = isBackendAvailable (Str ''standard'') e s
         \<and> fst (snd (initializeBackend nm e t s)) \<noteq> Inl (UnknownBackend nm ''standard'')"
proof -
  have n: "normalizeBackendName nm = ''standard''"
    using assms by (cases nm) simp_all
  have reg: "obj_get BACKENDS ''standard'' = Some StandardBackend"
    by (simp add: BACKENDS_def obj_get_def)
  have i: "initializeBackend nm e t' s = initializeBackend (Str ''standard'') e t' s" for t'
    unfolding initializeBackend_def n normalize_standard Let_def reg by simp
  have a: "isBackendAvailable nm e s = isBackendAvailable (Str ''standard'') e s"
    unfolding isBackendAvailable_def n normalize_standard i ..
  have u: "fst (snd (initializeBackend nm e t s)) \<noteq> Inl (UnknownBackend nm ''standard'')"
    unfolding initializeBackend_def n Let_def reg
    by (simp add: failure_def split: attempt.splits)
  show ?thesis using n i a u by simp
qed

text \<open>With \<^verbatim>\<open>undefined\<close> and with the empty string, on the empty cache.\<close>

theorem falsy_name_is_standard_witness:
  "initializeBackend Undefined \<lparr>now = 3, fresh = 11, outcome = HealthCheckReturns True\<rparr> True
     empty_cache
   = (\<lparr>backendInstances = [(''standard'', Instance StandardBackend 11)],
       backendHealthStatus = [(''standard'', True)],
       backendAccessTimestamps = [(''standard'', 3)]\<rparr>,
      Inr (Some (Instance StandardBackend 11)),
      [New ''standard'', Initialize ''standard'', HealthCheck ''standard''])
   \<and> isBackendAvailable (Str []) \<lparr>now = 3, fresh = 11, outcome = HealthCheckReturns False\<rparr>
       empty_cache
     = (\<lparr>backendInstances = [], backendHealthStatus = [(''standard'', False)],
         backendAccessTimestamps = []\<rparr>, Inr False,
        [New ''standard'', Initialize ''standard'', HealthCheck ''standard''])"
proof -
  have u: "\<not> truthy Undefined" and e: "\<not> truthy (Str [])" by simp_all
  have std: "initializeBackend (Str ''standard'')
       \<lparr>now = 3, fresh = 11, outcome = HealthCheckReturns True\<rparr> True empty_cache
   = (\<lparr>backendInstances = [(''standard'', Instance StandardBackend 11)],
       backendHealthStatus = [(''standard'', True)],
       backendAccessTimestamps = [(''standard'', 3)]\<rparr>,
      Inr (Some (Instance StandardBackend 11)),
      [New ''standard'', Initialize ''standard'', HealthCheck ''standard''])"
    by (simp add: cache_eval)
  have av: "isBackendAvailable (Str ''standard'')
       \<lparr>now = 3, fresh = 11, outcome = HealthCheckReturns False\<rparr> empty_cache
     = (\<lparr>backendInstances = [], backendHealthStatus = [(''standard'', False)],
         backendAccessTimestamps = []\<rparr>, Inr False,
        [New ''standard'', Initialize ''standard'', HealthCheck ''standard''])"
    by (simp add: cache_eval)
  show ?thesis
    using falsy_name_is_standard [OF u, of
            "\<lparr>now = 3, fresh = 11, outcome = HealthCheckReturns True\<rparr>" True empty_cache]
          falsy_name_is_standard [OF e, of
            "\<lparr>now = 3, fresh = 11, outcome = HealthCheckReturns False\<rparr>" True empty_cache]
          std av
    by simp
qed

text \<open>With \<^verbatim>\<open>throwOnFail = false\<close> no error leaves \<^verbatim>\<open>initializeBackend\<close>.\<close>

lemma initializeBackend_soft_no_throw:
  "fst (snd (initializeBackend nm e False s)) \<noteq> Inl err"
  by (simp add: initializeBackend_def Let_def failure_def split: option.splits attempt.splits)

text \<open>
  Claim C6. When \<^verbatim>\<open>initializeBackend\<close> does not find a healthy cached instance,
  each failure is thrown if \<^verbatim>\<open>throwOnFail\<close> is true and answered by
  \<^verbatim>\<open>null\<close> if it is false: a name that is not in the registry after alias
  resolution, an exception of the constructor, of \<^verbatim>\<open>initialize\<close> or of
  \<^verbatim>\<open>healthCheck\<close>, and a health check that returns false.
\<close>

theorem initializeBackend_failFast:
  assumes miss: "\<not> cached_healthy s (normalizeBackendName nm)"
  shows
    "(obj_get BACKENDS (normalizeBackendName nm) = None \<longrightarrow>
        fst (snd (initializeBackend nm e throwOnFail s)) =
          (if throwOnFail then Inl (UnknownBackend nm (normalizeBackendName nm)) else Inr None))
     \<and> (obj_get BACKENDS (normalizeBackendName nm) \<noteq> None \<longrightarrow>
          outcome e \<in> {ConstructorThrows, InitializeThrows, HealthCheckThrows} \<longrightarrow>
          fst (snd (initializeBackend nm e throwOnFail s)) =
            (if throwOnFail then Inl (BackendException (normalizeBackendName nm)) else Inr None))
     \<and> (obj_get BACKENDS (normalizeBackendName nm) \<noteq> None \<longrightarrow>
          outcome e = HealthCheckReturns False \<longrightarrow>
          fst (snd (initializeBackend nm e throwOnFail s)) =
            (if throwOnFail then Inl (FailedHealthCheck (normalizeBackendName nm)) else Inr None))"
  using miss
  by (auto simp: initializeBackend_def Let_def failure_def)

text \<open>Each kind of failure on the empty cache, thrown and not thrown.\<close>

theorem initializeBackend_failFast_witness:
  "fst (snd (initializeBackend (Str ''chroma'') \<lparr>now = 3, fresh = 2, outcome = HealthCheckReturns True\<rparr> True empty_cache))
     = Inl (UnknownBackend (Str ''chroma'') ''chroma'')
   \<and> fst (snd (initializeBackend (Str ''chroma'') \<lparr>now = 3, fresh = 2, outcome = HealthCheckReturns True\<rparr> False empty_cache))
     = Inr None
   \<and> fst (snd (initializeBackend (Str ''milvus'') \<lparr>now = 3, fresh = 2, outcome = InitializeThrows\<rparr> True empty_cache))
     = Inl (BackendException ''milvus'')
   \<and> fst (snd (initializeBackend (Str ''milvus'') \<lparr>now = 3, fresh = 2, outcome = InitializeThrows\<rparr> False empty_cache))
     = Inr None
   \<and> fst (snd (initializeBackend (Str ''vectra'') \<lparr>now = 3, fresh = 2, outcome = HealthCheckReturns False\<rparr> True empty_cache))
     = Inl (FailedHealthCheck ''standard'')
   \<and> fst (snd (initializeBackend (Str ''vectra'') \<lparr>now = 3, fresh = 2, outcome = HealthCheckReturns False\<rparr> False empty_cache))
     = Inr None"
proof -
  have m: "\<not> cached_healthy empty_cache (normalizeBackendName n)" for n
    by (simp add: cached_healthy_def empty_cache_def obj_get_def)
  have n: "normalizeBackendName (Str ''chroma'') = ''chroma''"
    "normalizeBackendName (Str ''milvus'') = ''milvus''"
    "normalizeBackendName (Str ''vectra'') = ''standard''"
    by (simp_all add: BACKEND_ALIASES_def obj_get_def)
  have r: "obj_get BACKENDS ''chroma'' = None" "obj_get BACKENDS ''milvus'' \<noteq> None"
    "obj_get BACKENDS ''standard'' \<noteq> None"
    by (simp_all add: BACKENDS_def obj_get_def)
  show ?thesis
    using initializeBackend_failFast [OF m, of "Str ''chroma''" "\<lparr>now = 3, fresh = 2, outcome = HealthCheckReturns True\<rparr>" True]
      initializeBackend_failFast [OF m, of "Str ''chroma''" "\<lparr>now = 3, fresh = 2, outcome = HealthCheckReturns True\<rparr>" False]
      initializeBackend_failFast [OF m, of "Str ''milvus''" "\<lparr>now = 3, fresh = 2, outcome = InitializeThrows\<rparr>" True]
      initializeBackend_failFast [OF m, of "Str ''milvus''" "\<lparr>now = 3, fresh = 2, outcome = InitializeThrows\<rparr>" False]
      initializeBackend_failFast [OF m, of "Str ''vectra''" "\<lparr>now = 3, fresh = 2, outcome = HealthCheckReturns False\<rparr>" True]
      initializeBackend_failFast [OF m, of "Str ''vectra''" "\<lparr>now = 3, fresh = 2, outcome = HealthCheckReturns False\<rparr>" False]
    unfolding n using r by simp
qed

text \<open>
  Claim C7. \<^verbatim>\<open>isBackendAvailable\<close> never throws. It returns false at once, with
  the cache unchanged and no call on a backend, when the health flag of the name is
  false; it returns true at once when a healthy instance is cached; otherwise it runs
  \<^verbatim>\<open>initializeBackend\<close> with \<^verbatim>\<open>throwOnFail = false\<close> and returns true
  exactly when that call returned an instance.
\<close>

theorem isBackendAvailable_probe:
  "(\<exists>b. fst (snd (isBackendAvailable nm e s)) = Inr b)
   \<and> (obj_get (backendHealthStatus s) (normalizeBackendName nm) = Some False \<longrightarrow>
        isBackendAvailable nm e s = (s, Inr False, []))
   \<and> (obj_get (backendHealthStatus s) (normalizeBackendName nm) \<noteq> Some False \<longrightarrow>
        cached_healthy s (normalizeBackendName nm) \<longrightarrow>
        isBackendAvailable nm e s = (s, Inr True, []))
   \<and> (obj_get (backendHealthStatus s) (normalizeBackendName nm) \<noteq> Some False \<longrightarrow>
        \<not> cached_healthy s (normalizeBackendName nm) \<longrightarrow>
        isBackendAvailable nm e s =
          (fst (initializeBackend nm e False s),
           Inr (\<exists>i. fst (snd (initializeBackend nm e False s)) = Inr (Some i)),
           snd (snd (initializeBackend nm e False s))))"
proof -
  obtain s' r calls where i: "initializeBackend nm e False s = (s', r, calls)"
    by (cases "initializeBackend nm e False s") auto
  have "r \<noteq> Inl err" for err
    using initializeBackend_soft_no_throw [of nm e s err] by (simp add: i)
  then obtain backend where r: "r = Inr backend" by (cases r) auto
  show ?thesis
    by (auto simp: isBackendAvailable_def Let_def i r)
qed

text \<open>The three cases, the last one with a success and with a failure.\<close>

theorem isBackendAvailable_probe_witness:
  "isBackendAvailable (Str ''qdrant'') \<lparr>now = 3, fresh = 2, outcome = HealthCheckReturns True\<rparr>
     \<lparr>backendInstances = [], backendHealthStatus = [(''qdrant'', False)], backendAccessTimestamps = []\<rparr>
   = (\<lparr>backendInstances = [], backendHealthStatus = [(''qdrant'', False)], backendAccessTimestamps = []\<rparr>, Inr False, [])
   \<and> isBackendAvailable (Str ''qdrant'') \<lparr>now = 3, fresh = 2, outcome = ConstructorThrows\<rparr>
     \<lparr>backendInstances = [(''qdrant'', Instance QdrantBackend 9)], backendHealthStatus = [(''qdrant'', True)],
      backendAccessTimestamps = [(''qdrant'', 2)]\<rparr>
   = (\<lparr>backendInstances = [(''qdrant'', Instance QdrantBackend 9)], backendHealthStatus = [(''qdrant'', True)],
      backendAccessTimestamps = [(''qdrant'', 2)]\<rparr>, Inr True, [])
   \<and> isBackendAvailable (Str ''qdrant'') \<lparr>now = 3, fresh = 2, outcome = HealthCheckReturns True\<rparr> empty_cache
   = (\<lparr>backendInstances = [(''qdrant'', Instance QdrantBackend 2)], backendHealthStatus = [(''qdrant'', True)],
      backendAccessTimestamps = [(''qdrant'', 3)]\<rparr>, Inr True,
      [New ''qdrant'', Initialize ''qdrant'', HealthCheck ''qdrant''])
   \<and> isBackendAvailable (Str ''qdrant'') \<lparr>now = 3, fresh = 2, outcome = HealthCheckThrows\<rparr> empty_cache
   = (\<lparr>backendInstances = [], backendHealthStatus = [(''qdrant'', False)],
      backendAccessTimestamps = []\<rparr>, Inr False,
      [New ''qdrant'', Initialize ''qdrant'', HealthCheck ''qdrant''])"
proof -
  let ?bad = "\<lparr>backendInstances = [], backendHealthStatus = [(''qdrant'', False)], backendAccessTimestamps = []\<rparr>"
  let ?good = "\<lparr>backendInstances = [(''qdrant'', Instance QdrantBackend 9)], backendHealthStatus = [(''qdrant'', True)],
      backendAccessTimestamps = [(''qdrant'', 2)]\<rparr>"
  have n: "normalizeBackendName (Str ''qdrant'') = ''qdrant''"
    by (simp add: BACKEND_ALIASES_def obj_get_def)
  have h: "obj_get (backendHealthStatus ?bad) ''qdrant'' = Some False"
    "obj_get (backendHealthStatus ?good) ''qdrant'' \<noteq> Some False"
    "cached_healthy ?good ''qdrant''"
    "obj_get (backendHealthStatus empty_cache) ''qdrant'' \<noteq> Some False"
    "\<not> cached_healthy empty_cache ''qdrant''"
    by (simp_all add: cached_healthy_def empty_cache_def obj_get_def)
  have i: "initializeBackend (Str ''qdrant'') \<lparr>now = 3, fresh = 2, outcome = HealthCheckReturns True\<rparr> False empty_cache
      = (\<lparr>backendInstances = [(''qdrant'', Instance QdrantBackend 2)], backendHealthStatus = [(''qdrant'', True)],
      backendAccessTimestamps = [(''qdrant'', 3)]\<rparr>, Inr (Some (Instance QdrantBackend 2)),
      [New ''qdrant'', Initialize ''qdrant'', HealthCheck ''qdrant''])"
    "initializeBackend (Str ''qdrant'') \<lparr>now = 3, fresh = 2, outcome = HealthCheckThrows\<rparr> False empty_cache
      = (\<lparr>backendInstances = [], backendHealthStatus = [(''qdrant'', False)],
      backendAccessTimestamps = []\<rparr>, Inr None,
      [New ''qdrant'', Initialize ''qdrant'', HealthCheck ''qdrant''])"
    by (simp_all add: cache_eval)
  show ?thesis
    using isBackendAvailable_probe [of "Str ''qdrant''" "\<lparr>now = 3, fresh = 2, outcome = HealthCheckReturns True\<rparr>" ?bad]
      isBackendAvailable_probe [of "Str ''qdrant''" "\<lparr>now = 3, fresh = 2, outcome = ConstructorThrows\<rparr>" ?good]
      isBackendAvailable_probe [of "Str ''qdrant''" "\<lparr>now = 3, fresh = 2, outcome = HealthCheckReturns True\<rparr>" empty_cache]
      isBackendAvailable_probe [of "Str ''qdrant''" "\<lparr>now = 3, fresh = 2, outcome = HealthCheckThrows\<rparr>" empty_cache]
    unfolding n i using h by simp
qed

text \<open>
  Claim C1 as stated fails: \<^verbatim>\<open>initializeBackend\<close> reads the health flag only
  together with a cached instance. After a failed health check of \<^verbatim>\<open>qdrant\<close> the
  flag is false, and the next \<^verbatim>\<open>initializeBackend\<close> for \<^verbatim>\<open>qdrant\<close>, with no
  reset in between, constructs, initialises and probes the backend again and caches it.
\<close>

theorem initializeBackend_retries_counterexample:
  "fst (initializeBackend (Str ''qdrant'') \<lparr>now = 3, fresh = 2, outcome = HealthCheckReturns False\<rparr> False empty_cache)
     = \<lparr>backendInstances = [], backendHealthStatus = [(''qdrant'', False)], backendAccessTimestamps = []\<rparr>
   \<and> initializeBackend (Str ''qdrant'') \<lparr>now = 7, fresh = 4, outcome = HealthCheckReturns True\<rparr> True
       \<lparr>backendInstances = [], backendHealthStatus = [(''qdrant'', False)], backendAccessTimestamps = []\<rparr>
     = (\<lparr>backendInstances = [(''qdrant'', Instance QdrantBackend 4)],
         backendHealthStatus = [(''qdrant'', True)],
         backendAccessTimestamps = [(''qdrant'', 7)]\<rparr>,
        Inr (Some (Instance QdrantBackend 4)),
        [New ''qdrant'', Initialize ''qdrant'', HealthCheck ''qdrant''])"
  by (simp add: cache_eval)

text \<open>
  Claim C1, amended. For a name whose health flag is false, \<^verbatim>\<open>isBackendAvailable\<close>
  fails fast: it returns false, changes nothing and calls no backend.
  \<^verbatim>\<open>initializeBackend\<close> has no such test: for a name of the registry its first
  action on the backend is a new construction.
\<close>

theorem unhealthy_fail_fast_in_probe_only:
  assumes bad: "obj_get (backendHealthStatus s) (normalizeBackendName nm) = Some False"
  shows "isBackendAvailable nm e s = (s, Inr False, [])
         \<and> (obj_get BACKENDS (normalizeBackendName nm) \<noteq> None \<longrightarrow>
              take 1 (snd (snd (initializeBackend nm e' throwOnFail s)))
                = [New (normalizeBackendName nm)])"
proof -
  have miss: "\<not> cached_healthy s (normalizeBackendName nm)"
    using bad by (simp add: cached_healthy_def)
  show ?thesis using bad miss
    by (auto simp: isBackendAvailable_def initializeBackend_def Let_def
             split: attempt.splits if_splits)
qed

text \<open>The state left by a failed health check of \<^verbatim>\<open>qdrant\<close>.\<close>

theorem unhealthy_fail_fast_in_probe_only_witness:
  "isBackendAvailable (Str ''qdrant'') \<lparr>now = 7, fresh = 4, outcome = HealthCheckReturns True\<rparr>
       \<lparr>backendInstances = [], backendHealthStatus = [(''qdrant'', False)], backendAccessTimestamps = []\<rparr>
     = (\<lparr>backendInstances = [], backendHealthStatus = [(''qdrant'', False)], backendAccessTimestamps = []\<rparr>,
        Inr False, [])
   \<and> take 1 (snd (snd (initializeBackend (Str ''qdrant'') \<lparr>now = 7, fresh = 4, outcome = ConstructorThrows\<rparr> False
       \<lparr>backendInstances = [], backendHealthStatus = [(''qdrant'', False)], backendAccessTimestamps = []\<rparr>)))
     = [New ''qdrant'']"
proof -
  let ?bad = "\<lparr>backendInstances = [], backendHealthStatus = [(''qdrant'', False)], backendAccessTimestamps = []\<rparr>"
  have n: "normalizeBackendName (Str ''qdrant'') = ''qdrant''"
    by (simp add: BACKEND_ALIASES_def obj_get_def)
  have h: "obj_get (backendHealthStatus ?bad) (normalizeBackendName (Str ''qdrant'')) = Some False"
    unfolding n by (simp add: obj_get_def)
  have r: "obj_get BACKENDS ''qdrant'' \<noteq> None"
    by (simp add: BACKENDS_def obj_get_def)
  show ?thesis
    using unhealthy_fail_fast_in_probe_only [OF h,
        of "\<lparr>now = 7, fresh = 4, outcome = HealthCheckReturns True\<rparr>"
           "\<lparr>now = 7, fresh = 4, outcome = ConstructorThrows\<rparr>" False]
    unfolding n using r by simp
qed

text \<open>Resetting all names filters both tables by the keys of the health table.\<close>

lemma fold_reset_one:
  "fold reset_one ns s =
     s\<lparr>backendHealthStatus := filter (\<lambda>kv. fst kv \<notin> set ns) (backendHealthStatus s),
       backendInstances := filter (\<lambda>kv. fst kv \<notin> set ns) (backendInstances s)\<rparr>"
proof (induction ns arbitrary: s)
  case Nil
  show ?case by simp
next
  case (Cons n ns)
  have c: "(\<lambda>kv. fst kv \<notin> set ns \<and> fst kv \<noteq> n) = (\<lambda>kv. fst kv \<noteq> n \<and> fst kv \<notin> set ns)"
    by auto
  have "fold reset_one (n # ns) s = fold reset_one ns (reset_one n s)" by simp
  also have "\<dots> = (reset_one n s)\<lparr>backendHealthStatus :=
        filter (\<lambda>kv. fst kv \<notin> set ns) (backendHealthStatus (reset_one n s)),
      backendInstances := filter (\<lambda>kv. fst kv \<notin> set ns) (backendInstances (reset_one n s))\<rparr>"
    by (rule Cons.IH)
  also have "\<dots> = s\<lparr>backendHealthStatus :=
        filter (\<lambda>kv. fst kv \<notin> set (n # ns)) (backendHealthStatus s),
      backendInstances := filter (\<lambda>kv. fst kv \<notin> set (n # ns)) (backendInstances s)\<rparr>"
    by (simp add: reset_one_def obj_delete_def c)
  finally show ?case .
qed

lemma obj_get_filter_out:
  "k \<in> set ns \<Longrightarrow> obj_get (filter (\<lambda>kv. fst kv \<notin> set ns) m) k = None"
  by (induction m) (auto simp: obj_get_def)

text \<open>
  Claim C10. \<^verbatim>\<open>resetBackendHealth\<close> leaves the timestamp table as it is. With a
  truthy name it removes the instance and the health flag of the normalized name; with
  no name it empties the health table and removes the instance of every name that had a
  health flag. A timestamp entry therefore survives the reset of its name.
\<close>

theorem resetBackendHealth_frame:
  "backendAccessTimestamps (resetBackendHealth nm s) = backendAccessTimestamps s
   \<and> (truthy nm \<longrightarrow>
        obj_get (backendInstances (resetBackendHealth nm s)) (normalizeBackendName nm) = None
        \<and> obj_get (backendHealthStatus (resetBackendHealth nm s)) (normalizeBackendName nm) = None)
   \<and> (\<not> truthy nm \<longrightarrow>
        backendHealthStatus (resetBackendHealth nm s) = []
        \<and> (\<forall>k \<in> set (obj_keys (backendHealthStatus s)).
              obj_get (backendInstances (resetBackendHealth nm s)) k = None))"
proof (cases "truthy nm")
  case True
  then show ?thesis
    by (simp add: resetBackendHealth_def reset_one_def obj_get_delete)
next
  case False
  have "filter (\<lambda>kv. fst kv \<notin> set (obj_keys (backendHealthStatus s))) (backendHealthStatus s) = []"
    by (auto simp: obj_keys_def filter_empty_conv)
  then show ?thesis using False
    by (simp add: resetBackendHealth_def fold_reset_one obj_get_filter_out)
qed

text \<open>A reset through the alias \<^verbatim>\<open>vectra\<close>, and a reset of all names.\<close>

theorem resetBackendHealth_frame_witness:
  "resetBackendHealth (Str ''vectra'')
     \<lparr>backendInstances = [(''standard'', Instance StandardBackend 7), (''qdrant'', Instance QdrantBackend 8)],
      backendHealthStatus = [(''standard'', True), (''qdrant'', True), (''milvus'', False)],
      backendAccessTimestamps = [(''standard'', 5), (''qdrant'', 6)]\<rparr>
   = \<lparr>backendInstances = [(''qdrant'', Instance QdrantBackend 8)],
      backendHealthStatus = [(''qdrant'', True), (''milvus'', False)],
      backendAccessTimestamps = [(''standard'', 5), (''qdrant'', 6)]\<rparr>
   \<and> resetBackendHealth Null
     \<lparr>backendInstances = [(''standard'', Instance StandardBackend 7), (''qdrant'', Instance QdrantBackend 8)],
      backendHealthStatus = [(''standard'', True), (''qdrant'', True), (''milvus'', False)],
      backendAccessTimestamps = [(''standard'', 5), (''qdrant'', 6)]\<rparr>
   = \<lparr>backendInstances = [], backendHealthStatus = [],
      backendAccessTimestamps = [(''standard'', 5), (''qdrant'', 6)]\<rparr>"
proof -
  let ?s = "\<lparr>backendInstances = [(''standard'', Instance StandardBackend 7), (''qdrant'', Instance QdrantBackend 8)],
      backendHealthStatus = [(''standard'', True), (''qdrant'', True), (''milvus'', False)],
      backendAccessTimestamps = [(''standard'', 5), (''qdrant'', 6)]\<rparr>"
  have t: "truthy (Str ''vectra'')" and f: "\<not> truthy Null" by simp_all
  have one: "backendInstances (resetBackendHealth (Str ''vectra'') ?s) = [(''qdrant'', Instance QdrantBackend 8)]"
     "backendHealthStatus (resetBackendHealth (Str ''vectra'') ?s) = [(''qdrant'', True), (''milvus'', False)]"
    by (simp_all add: cache_eval)
  have all: "backendInstances (resetBackendHealth Null ?s) = []"
    by (simp add: cache_eval)
  have "resetBackendHealth (Str ''vectra'') ?s = \<lparr>backendInstances = backendInstances (resetBackendHealth (Str ''vectra'') ?s),
      backendHealthStatus = backendHealthStatus (resetBackendHealth (Str ''vectra'') ?s),
      backendAccessTimestamps = backendAccessTimestamps (resetBackendHealth (Str ''vectra'') ?s)\<rparr>"
    by simp
  moreover have "resetBackendHealth Null ?s = \<lparr>backendInstances = backendInstances (resetBackendHealth Null ?s),
      backendHealthStatus = backendHealthStatus (resetBackendHealth Null ?s),
      backendAccessTimestamps = backendAccessTimestamps (resetBackendHealth Null ?s)\<rparr>"
    by simp
  ultimately show ?thesis
    using resetBackendHealth_frame [of "Str ''vectra''" ?s] resetBackendHealth_frame [of Null ?s]
      t f one all
    by simp
qed

section \<open>The eviction\<close>

text \<open>
  The loop keeps the smallest timestamp seen so far, and the name of the first entry
  that has it.
\<close>

lemma oldest_scan_from_Some:
  "oldest_scan ts (ob, Some t0) = (ob', ot') \<Longrightarrow>
     \<exists>t. ot' = Some t \<and> t \<le> t0 \<and> (\<forall>e \<in> set ts. t \<le> snd e)
         \<and> ((ob' = ob \<and> t = t0) \<or> (\<exists>n. ob' = Some n \<and> (n, t) \<in> set ts))"
proof (induction ts arbitrary: ob t0)
  case Nil
  then show ?case by simp
next
  case (Cons a ts)
  obtain name timestamp where a: "a = (name, timestamp)" by (cases a)
  show ?case
  proof (cases "timestamp < t0")
    case True
    with Cons.prems have "oldest_scan ts (Some name, Some timestamp) = (ob', ot')"
      by (simp add: a)
    from Cons.IH [OF this] obtain t where
      t: "ot' = Some t" "t \<le> timestamp" "\<forall>e \<in> set ts. t \<le> snd e"
         "(ob' = Some name \<and> t = timestamp) \<or> (\<exists>n. ob' = Some n \<and> (n, t) \<in> set ts)"
      by blast
    then show ?thesis using True by (auto simp: a)
  next
    case False
    with Cons.prems have "oldest_scan ts (ob, Some t0) = (ob', ot')"
      by (simp add: a)
    from Cons.IH [OF this] obtain t where
      t: "ot' = Some t" "t \<le> t0" "\<forall>e \<in> set ts. t \<le> snd e"
         "(ob' = ob \<and> t = t0) \<or> (\<exists>n. ob' = Some n \<and> (n, t) \<in> set ts)"
      by blast
    then show ?thesis using False by (auto simp: a)
  qed
qed

lemma oldest_scan_minimum:
  assumes "ts \<noteq> []"
  shows "\<exists>n t. fst (oldest_scan ts (None, None)) = Some n \<and> (n, t) \<in> set ts
               \<and> (\<forall>e \<in> set ts. t \<le> snd e)"
proof -
  obtain name timestamp rest where ts: "ts = (name, timestamp) # rest"
    using assms by (cases ts) auto
  obtain ob' ot' where r: "oldest_scan rest (Some name, Some timestamp) = (ob', ot')"
    by (cases "oldest_scan rest (Some name, Some timestamp)") auto
  from oldest_scan_from_Some [OF r] obtain t where
    t: "t \<le> timestamp" "\<forall>e \<in> set rest. t \<le> snd e"
       "(ob' = Some name \<and> t = timestamp) \<or> (\<exists>n. ob' = Some n \<and> (n, t) \<in> set rest)"
    by blast
  have f: "fst (oldest_scan ts (None, None)) = ob'"
    by (simp add: ts r)
  from t(3) show ?thesis
  proof
    assume "ob' = Some name \<and> t = timestamp"
    then show ?thesis using t(1,2) f by (auto simp: ts)
  next
    assume "\<exists>n. ob' = Some n \<and> (n, t) \<in> set rest"
    then show ?thesis using t(1,2) f by (auto simp: ts)
  qed
qed

text \<open>
  The branch that removes an entry, on a table that holds the maximum: when the
  timestamp table has entries for exactly the names that hold an instance, the entry
  removed holds an instance and its timestamp is the smallest. No run of the public
  operations reaches such a table, as is shown below.
\<close>

lemma evict_on_full_table:
  assumes full: "MAX_CACHED_BACKENDS \<le> length (obj_keys (backendInstances s))"
      and same: "set (obj_keys (backendAccessTimestamps s)) = set (obj_keys (backendInstances s))"
      and names: "[] \<notin> set (obj_keys (backendAccessTimestamps s))"
  shows "\<exists>name t. (name, t) \<in> set (backendAccessTimestamps s)
            \<and> (\<forall>e \<in> set (backendAccessTimestamps s). t \<le> snd e)
            \<and> name \<in> set (obj_keys (backendInstances s))
            \<and> evictLRUBackendIfNeeded s = evict name s"
proof -
  have "obj_keys (backendInstances s) \<noteq> []"
    using full by (auto simp: MAX_CACHED_BACKENDS_def)
  then have "set (obj_keys (backendAccessTimestamps s)) \<noteq> {}"
    using same by simp
  then have ne: "backendAccessTimestamps s \<noteq> []"
    by (auto simp: obj_keys_def)
  from oldest_scan_minimum [OF ne] obtain n t where
    o: "fst (oldest_scan (backendAccessTimestamps s) (None, None)) = Some n"
    and m: "(n, t) \<in> set (backendAccessTimestamps s)"
    and l: "\<forall>e \<in> set (backendAccessTimestamps s). t \<le> snd e"
    by blast
  have k: "n \<in> set (obj_keys (backendAccessTimestamps s))"
    using m by (force simp: obj_keys_def)
  then have "n \<noteq> []" using names by auto
  then have "evictLRUBackendIfNeeded s = evict n s"
    using full o by (simp add: evictLRUBackendIfNeeded_def)
  then show ?thesis using m l k same by blast
qed








section \<open>The BM25 fixture, scored\<close>

text \<open>The tokens of the five documents and of the query.\<close>

lemma fixture_tokens:
  "map (\<lambda>D. tokenize (doc_text D)) testDocuments =
     [[''the'', ''wizard'', ''cast'', ''a'', ''powerful'', ''fire'', ''spell'', ''at'', ''the'',
       ''dragon''],
      [''magic'', ''spells'', ''require'', ''concentration'', ''and'', ''mana''],
      [''the'', ''dragon'', ''breathed'', ''fire'', ''across'', ''the'', ''battlefield''],
      [''ancient'', ''wizards'', ''studied'', ''magic'', ''in'', ''the'', ''tower''],
      [''she'', ''learned'', ''a'', ''new'', ''healing'', ''spell'', ''today'']]"
  by code_simp

lemma query1_tokens: "tokenize query1 = [''wizard'', ''magic'', ''spell'']"
  by code_simp

lemma fixture_text_tokens:
  "tokenize ''The wizard cast a powerful fire spell at the dragon'' =
     [''the'', ''wizard'', ''cast'', ''a'', ''powerful'', ''fire'', ''spell'', ''at'', ''the'',
      ''dragon'']"
  "tokenize ''Magic spells require concentration and mana'' =
     [''magic'', ''spells'', ''require'', ''concentration'', ''and'', ''mana'']"
  "tokenize ''The dragon breathed fire across the battlefield'' =
     [''the'', ''dragon'', ''breathed'', ''fire'', ''across'', ''the'', ''battlefield'']"
  "tokenize ''Ancient wizards studied magic in the tower'' =
     [''ancient'', ''wizards'', ''studied'', ''magic'', ''in'', ''the'', ''tower'']"
  "tokenize ''She learned a new healing spell today'' =
     [''she'', ''learned'', ''a'', ''new'', ''healing'', ''spell'', ''today'']"
  using fixture_tokens by (simp_all add: testDocuments_def)

text \<open>The statistics of the corpus, and the scores of the five documents.\<close>

lemma fixture_size: "length testDocuments = 5"
  by (simp add: testDocuments_def)

lemma fixture_avgdl: "avgdl testDocuments = 37 / 5"
  by (simp add: avgdl_def docLength_def testDocuments_def fixture_text_tokens)

lemma fixture_df:
  "documentFrequency testDocuments ''wizard'' = 1"
  "documentFrequency testDocuments ''magic'' = 2"
  "documentFrequency testDocuments ''spell'' = 2"
  by (simp_all add: documentFrequency_def termFrequency_def testDocuments_def
                    fixture_text_tokens)

lemma fixture_idf:
  "idf testDocuments ''wizard'' = ln 4"
  "idf testDocuments ''magic'' = ln (12 / 5)"
  "idf testDocuments ''spell'' = ln (12 / 5)"
  by (simp_all add: idf_def fixture_df fixture_size)

lemma fixture_lengths:
  "docLength (testDocuments ! 0) = 10"
  "docLength (testDocuments ! Suc 0) = 6"
  "docLength (testDocuments ! 2) = 7"
  "docLength (testDocuments ! 3) = 7"
  "docLength (testDocuments ! 4) = 7"
  by (simp_all add: docLength_def testDocuments_def fixture_text_tokens)

lemma fixture_tf:
  "termFrequency ''wizard'' (testDocuments ! 0) = 1"
  "termFrequency ''wizard'' (testDocuments ! Suc 0) = 0"
  "termFrequency ''wizard'' (testDocuments ! 2) = 0"
  "termFrequency ''wizard'' (testDocuments ! 3) = 0"
  "termFrequency ''wizard'' (testDocuments ! 4) = 0"
  "termFrequency ''magic'' (testDocuments ! 0) = 0"
  "termFrequency ''magic'' (testDocuments ! Suc 0) = 1"
  "termFrequency ''magic'' (testDocuments ! 2) = 0"
  "termFrequency ''magic'' (testDocuments ! 3) = 1"
  "termFrequency ''magic'' (testDocuments ! 4) = 0"
  "termFrequency ''spell'' (testDocuments ! 0) = 1"
  "termFrequency ''spell'' (testDocuments ! Suc 0) = 0"
  "termFrequency ''spell'' (testDocuments ! 2) = 0"
  "termFrequency ''spell'' (testDocuments ! 3) = 0"
  "termFrequency ''spell'' (testDocuments ! 4) = 1"
  by (simp_all add: termFrequency_def testDocuments_def fixture_text_tokens)

lemma fixture_scores:
  "bm25_score 1.5 0.75 testDocuments (testDocuments ! 0) query1
     = (ln 4 + ln (12 / 5)) * (740 / 857)"
  "bm25_score 1.5 0.75 testDocuments (testDocuments ! 1) query1 = ln (12 / 5) * (740 / 677)"
  "bm25_score 1.5 0.75 testDocuments (testDocuments ! 2) query1 = 0"
  "bm25_score 1.5 0.75 testDocuments (testDocuments ! 3) query1 = ln (12 / 5) * (370 / 361)"
  "bm25_score 1.5 0.75 testDocuments (testDocuments ! 4) query1 = ln (12 / 5) * (370 / 361)"
  by (simp_all add: bm25_score_def query1_tokens term_score_def fixture_idf fixture_avgdl
        fixture_tf fixture_lengths field_simps)

lemma fixture_ln: "0 < ln (12 / 5 :: real)" "ln (12 / 5 :: real) < ln 4"
  by simp_all


lemma fixture_neither:
  "filter (\<lambda>D. termFrequency ''wizard'' D = 0 \<and> termFrequency ''spell'' D = 0) testDocuments
     = [testDocuments ! 1, testDocuments ! 2, testDocuments ! 3]"
  by (simp add: testDocuments_def termFrequency_def fixture_text_tokens)

lemma sort_key_five:
  fixes f :: "'a \<Rightarrow> real"
  assumes "f a > f b" "f b > f d" "f d = f e" "f e > f c"
  shows "sort_key (\<lambda>x. - f x) [a, b, c, d, e] = [a, b, d, e, c]"
  using assms by simp

lemma score_order:
  fixes a b :: real
  assumes "0 < a" "a < b"
  shows "a * (740 / 677) < (b + a) * (740 / 857)"
    and "a * (370 / 361) < a * (740 / 677)"
    and "0 < a * (370 / 361)"
proof -
  show "a * (740 / 677) < (b + a) * (740 / 857)" using assms by (simp add: field_simps)
  show "a * (370 / 361) < a * (740 / 677)" using assms by (simp add: field_simps)
  show "0 < a * (370 / 361)" using assms by simp
qed

text \<open>
  Claim C8. On the five documents of the fixture, with \<open>k1 = 1.5\<close> and
  \<open>b = 0.75\<close> and the query \<^verbatim>\<open>wizard magic spell\<close>, the first document (the one
  that contains both \<^verbatim>\<open>wizard\<close> and \<^verbatim>\<open>spell\<close>) has a strictly higher score
  than each of the three documents that contain neither term (the second, third and
  fourth); in the ranking by descending score it comes first, before all of them.
\<close>

theorem fixture_ranking:
  "bm25_score 1.5 0.75 testDocuments (testDocuments ! 1) query1
     < bm25_score 1.5 0.75 testDocuments (testDocuments ! 0) query1
   \<and> bm25_score 1.5 0.75 testDocuments (testDocuments ! 2) query1
     < bm25_score 1.5 0.75 testDocuments (testDocuments ! 0) query1
   \<and> bm25_score 1.5 0.75 testDocuments (testDocuments ! 3) query1
     < bm25_score 1.5 0.75 testDocuments (testDocuments ! 0) query1
   \<and> filter (\<lambda>D. termFrequency ''wizard'' D = 0 \<and> termFrequency ''spell'' D = 0) testDocuments
     = [testDocuments ! 1, testDocuments ! 2, testDocuments ! 3]
   \<and> termFrequency ''wizard'' (testDocuments ! 0) = 1
   \<and> termFrequency ''spell'' (testDocuments ! 0) = 1
   \<and> rank_documents 1.5 0.75 testDocuments query1
     = [testDocuments ! 0, testDocuments ! 1, testDocuments ! 3, testDocuments ! 4,
        testDocuments ! 2]"
proof -
  let ?f = "\<lambda>D. bm25_score 1.5 0.75 testDocuments D query1"
  have o: "?f (testDocuments ! 1) < ?f (testDocuments ! 0)"
    "?f (testDocuments ! 3) < ?f (testDocuments ! 1)"
    "?f (testDocuments ! 3) = ?f (testDocuments ! 4)"
    "?f (testDocuments ! 2) < ?f (testDocuments ! 4)"
    unfolding fixture_scores
    using score_order [OF fixture_ln] by simp_all
  have l: "testDocuments = [testDocuments ! 0, testDocuments ! 1, testDocuments ! 2,
                            testDocuments ! 3, testDocuments ! 4]"
    by (simp add: testDocuments_def)
  have "rank_documents 1.5 0.75 testDocuments query1
          = sort_key (\<lambda>D. - ?f D) [testDocuments ! 0, testDocuments ! 1, testDocuments ! 2,
                            testDocuments ! 3, testDocuments ! 4]"
    unfolding rank_documents_def using l by simp
  also have "\<dots> = [testDocuments ! 0, testDocuments ! 1, testDocuments ! 3, testDocuments ! 4,
        testDocuments ! 2]"
    using o by (intro sort_key_five) simp_all
  finally have r: "rank_documents 1.5 0.75 testDocuments query1
     = [testDocuments ! 0, testDocuments ! 1, testDocuments ! 3, testDocuments ! 4,
        testDocuments ! 2]" .
  have "?f (testDocuments ! 2) < ?f (testDocuments ! 0)"
       "?f (testDocuments ! 3) < ?f (testDocuments ! 0)"
    using o by simp_all
  then show ?thesis using o(1) r fixture_neither fixture_tf by simp
qed

end
